theory Spec2Isabelle
  imports Main "HOL-Library.Sublist"
begin

section \<open>The Flask API of the job crawler (src/api/app.py)\<close>

text \<open>
  The handlers of \<^verbatim>\<open>src/api/app.py\<close> are embedded as functions from the parsed
  request and the application state to a response and the new state.

  \<^item> A Python \<^verbatim>\<open>str\<close> is a \<^typ>\<open>string\<close> whose characters are read as the code
    points below 256, so that \<^verbatim>\<open>strip\<close> and \<^verbatim>\<open>lower\<close> behave as Python's do there.
  \<^item> JSON numbers are the integers (\<^typ>\<open>int\<close>), a key that is missing or
    \<^verbatim>\<open>null\<close> is \<^term>\<open>None\<close>.
  \<^item> The body of a request has the shape the API documents: lists of strings,
    a list of ranges, optional integers, a string.
  \<^item> Every call into the profile store may raise; an exception is a value.
\<close>

subsection \<open>Python strings\<close>

definition isspace :: "char \<Rightarrow> bool" where
  \<comment> \<open>\<^verbatim>\<open>str.isspace\<close> on one code point below 256: TAB..CR, FS..US, space, NEL, NBSP\<close>
  "isspace c =
     (let n = (of_char c :: nat)
      in (9 \<le> n \<and> n \<le> 13) \<or> (28 \<le> n \<and> n \<le> 32) \<or> n = 133 \<or> n = 160)"

definition strip :: "string \<Rightarrow> string" where
  "strip s = rev (dropWhile isspace (rev (dropWhile isspace s)))"

definition lower_char :: "char \<Rightarrow> char" where
  \<comment> \<open>A..Z and the upper-case letters of Latin-1 (all of 192..222 but the sign 215)\<close>
  "lower_char c =
     (let n = (of_char c :: nat)
      in if (65 \<le> n \<and> n \<le> 90) \<or> (192 \<le> n \<and> n \<le> 222 \<and> n \<noteq> 215)
         then char_of (n + 32) else c)"

definition lower :: "string \<Rightarrow> string" where
  "lower s = map lower_char s"

fun py_in :: "string \<Rightarrow> string \<Rightarrow> bool" where
  \<comment> \<open>\<^verbatim>\<open>sub in s\<close> on strings: \<^verbatim>\<open>sub\<close> occurs in \<^verbatim>\<open>s\<close> as a contiguous run\<close>
  "py_in sub [] = (sub = [])"
| "py_in sub (c # cs) = (prefix sub (c # cs) \<or> py_in sub cs)"

definition split_first :: "char \<Rightarrow> string \<Rightarrow> string" where
  \<comment> \<open>\<^verbatim>\<open>s.split(sep)[0]\<close> for a separator of one character\<close>
  "split_first sep s = takeWhile (\<lambda>c. c \<noteq> sep) s"

subsection \<open>Data\<close>

datatype py_exception = PyException string

fun str_exn :: "py_exception \<Rightarrow> string" where
  "str_exn (PyException msg) = msg"

text \<open>
  Modelled from the spec: the profile class of \<^verbatim>\<open>src/database\<close> is not part of the
  given source. Its attributes are those the data model lists, under the names of the
  keyword arguments that \<^verbatim>\<open>update_config\<close> passes to \<^verbatim>\<open>update_user_profile\<close>.
\<close>

record profile =
  email :: string
  name :: string
  preferred_locations :: "string list"
  expected_salary_min :: int
  expected_salary_max :: int
  experience_years :: int
  current_role :: string
  primary_skills :: "string list"

definition to_dict :: "profile \<Rightarrow> profile" where
  \<comment> \<open>Modelled from the spec: \<^verbatim>\<open>profile.to_dict()\<close> is missing; the dictionary of a
      profile is taken to hold exactly its attributes.\<close>
  "to_dict p = p"

text \<open>
  Modelled from the spec: \<^verbatim>\<open>config.config.Config\<close> is missing; the fields are the
  attributes that \<^verbatim>\<open>app.py\<close> reads.
\<close>

record config =
  PREFERRED_LOCATIONS :: "string list"
  MIN_SALARY :: int
  MAX_SALARY :: int
  EMAIL_RECIPIENT :: "string option"
  ENABLE_USER_PROFILES :: bool

record salary_range =
  range_min :: "int option"
  range_max :: "int option"

record config_request =
  receiver_emails :: "string list"
  locations :: "string list"
  salary_ranges :: "salary_range list"
  experience_min :: "int option"
  experience_max :: "int option"
  job_title :: string

text \<open>The dictionary \<^verbatim>\<open>update_data\<close>: a key that was not set is \<^term>\<open>None\<close>.\<close>

record update_data =
  set_preferred_locations :: "string list option"
  set_expected_salary_min :: "int option"
  set_expected_salary_max :: "int option"
  set_experience_years :: "int option"
  set_current_role :: "string option"
  set_primary_skills :: "string list option"

datatype response_body =
    Health string string
  | ConfigData "string list" int int "string list" "profile list"
  | ErrorBody string
  | UpdateResult string "profile list" nat
  | ProfileList "profile list"
  | ProfileObj profile

record response =
  status :: nat
  body :: response_body

text \<open>
  The functions imported from \<^verbatim>\<open>src.database.profile_manager\<close> are parameters of the
  handlers: each takes the store, and returns what it returns or raises, and the store.
\<close>

record 's profile_manager =
  get_user_profile :: "string \<Rightarrow> 's \<Rightarrow> (py_exception + profile option) \<times> 's"
  create_default_profile :: "string \<Rightarrow> string \<Rightarrow> 's \<Rightarrow> (py_exception + profile option) \<times> 's"
  update_user_profile :: "string \<Rightarrow> update_data \<Rightarrow> 's \<Rightarrow> (py_exception + profile option) \<times> 's"
  get_all_active_profiles :: "'s \<Rightarrow> (py_exception + profile list) \<times> 's"

record 's app_state =
  global_config :: config
  store :: 's

subsection \<open>The handlers\<close>

definition health_check :: response where
  "health_check =
     \<lparr>status = 200, body = Health ''healthy'' ''Job Crawler API is running''\<rparr>"

definition error_response :: "nat \<Rightarrow> string \<Rightarrow> response" where
  \<comment> \<open>\<^verbatim>\<open>jsonify({'error': msg}), code\<close>\<close>
  "error_response code msg = \<lparr>status = code, body = ErrorBody msg\<rparr>"

definition get_config :: "'s profile_manager \<Rightarrow> 's app_state \<Rightarrow> response \<times> 's app_state" where
  "get_config pm st =
     (case get_all_active_profiles pm (store st) of
        (Inl e, s') \<Rightarrow> (error_response 500 (str_exn e), st\<lparr>store := s'\<rparr>)
      | (Inr profiles, s') \<Rightarrow>
          (\<lparr>status = 200,
            body = ConfigData (PREFERRED_LOCATIONS (global_config st))
                     (MIN_SALARY (global_config st)) (MAX_SALARY (global_config st))
                     (case EMAIL_RECIPIENT (global_config st) of
                        None \<Rightarrow> []
                      | Some r \<Rightarrow> if r = [] then [] else [r])
                     (map to_dict profiles)\<rparr>,
           st\<lparr>store := s'\<rparr>))"

definition truthy :: "int option \<Rightarrow> bool" where
  \<comment> \<open>the truth value of \<^verbatim>\<open>r.get(key)\<close>: a missing key, \<^verbatim>\<open>null\<close> and 0 are false\<close>
  "truthy v = (case v of None \<Rightarrow> False | Some n \<Rightarrow> n \<noteq> 0)"

definition get_default :: "int option \<Rightarrow> int \<Rightarrow> int" where
  \<comment> \<open>\<^verbatim>\<open>r.get(key, d)\<close>, read only where \<^verbatim>\<open>r.get(key)\<close> is true\<close>
  "get_default v d = (case v of None \<Rightarrow> d | Some n \<Rightarrow> n)"

definition all_mins :: "salary_range list \<Rightarrow> int list" where
  "all_mins rs = map (\<lambda>r. get_default (range_min r) 0) (filter (\<lambda>r. truthy (range_min r)) rs)"

definition all_maxs :: "salary_range list \<Rightarrow> int list" where
  "all_maxs rs =
     map (\<lambda>r. get_default (range_max r) 999999) (filter (\<lambda>r. truthy (range_max r)) rs)"

definition py_min :: "int list \<Rightarrow> int option" where
  \<comment> \<open>\<^verbatim>\<open>min(xs)\<close> behind the test \<^verbatim>\<open>if xs\<close>: nothing for the empty list\<close>
  "py_min xs = (case xs of [] \<Rightarrow> None | x # ys \<Rightarrow> Some (foldl min x ys))"

definition py_max :: "int list \<Rightarrow> int option" where
  "py_max xs = (case xs of [] \<Rightarrow> None | x # ys \<Rightarrow> Some (foldl max x ys))"

definition skills_for_title :: "string \<Rightarrow> string list option" where
  "skills_for_title title =
     (if py_in ''python'' (lower title) then Some [''Python'', ''JavaScript'', ''React'']
      else if py_in ''react'' (lower title) \<or> py_in ''frontend'' (lower title)
        then Some [''React'', ''JavaScript'', ''TypeScript'']
      else if py_in ''backend'' (lower title) then Some [''Python'', ''Java'', ''Node.js'']
      else None)"

definition build_update_data :: "config_request \<Rightarrow> update_data" where
  \<comment> \<open>lines 93 to 122: the dictionary depends on the request alone\<close>
  "build_update_data req =
     \<lparr>set_preferred_locations =
        (if locations req \<noteq> []
         then Some (map strip (filter (\<lambda>loc. strip loc \<noteq> []) (locations req)))
         else None),
      set_expected_salary_min =
        (if salary_ranges req \<noteq> [] \<and> length (salary_ranges req) > 0
         then py_min (all_mins (salary_ranges req)) else None),
      set_expected_salary_max =
        (if salary_ranges req \<noteq> [] \<and> length (salary_ranges req) > 0
         then py_max (all_maxs (salary_ranges req)) else None),
      set_experience_years = experience_min req,
      set_current_role = (if job_title req \<noteq> [] then Some (job_title req) else None),
      set_primary_skills =
        (if job_title req \<noteq> [] then skills_for_title (job_title req) else None)\<rparr>"

definition process_email ::
  "'s profile_manager \<Rightarrow> config_request \<Rightarrow> string \<Rightarrow> profile list \<Rightarrow> 's
     \<Rightarrow> (py_exception + profile list) \<times> 's" where
  \<comment> \<open>one round of the loop of lines 80 to 127\<close>
  "process_email pm req em updated_profiles s =
     (if em = [] \<or> strip em = [] then (Inr updated_profiles, s)
      else
        let em' = strip em in
        case get_user_profile pm em' s of
          (Inl e, s1) \<Rightarrow> (Inl e, s1)
        | (Inr found, s1) \<Rightarrow>
            (case (case found of
                     Some p \<Rightarrow> (Inr (Some p), s1)
                   | None \<Rightarrow> create_default_profile pm em' (split_first CHR ''@'' em') s1) of
               (Inl e, s2) \<Rightarrow> (Inl e, s2)
             | (Inr None, s2) \<Rightarrow> (Inr updated_profiles, s2)
             | (Inr (Some p), s2) \<Rightarrow>
                 (case update_user_profile pm em' (build_update_data req) s2 of
                    (Inl e, s3) \<Rightarrow> (Inl e, s3)
                  | (Inr None, s3) \<Rightarrow> (Inr updated_profiles, s3)
                  | (Inr (Some updated_profile), s3) \<Rightarrow>
                      (Inr (updated_profiles @ [to_dict updated_profile]), s3))))"

fun process_emails ::
  "'s profile_manager \<Rightarrow> config_request \<Rightarrow> string list \<Rightarrow> profile list \<Rightarrow> 's
     \<Rightarrow> (py_exception + profile list) \<times> 's" where
  "process_emails pm req [] updated_profiles s = (Inr updated_profiles, s)"
| "process_emails pm req (em # rest) updated_profiles s =
     (case process_email pm req em updated_profiles s of
        (Inl e, s') \<Rightarrow> (Inl e, s')
      | (Inr updated_profiles', s') \<Rightarrow> process_emails pm req rest updated_profiles' s')"

definition update_config_try ::
  "'s profile_manager \<Rightarrow> config_request \<Rightarrow> 's \<Rightarrow> (py_exception + response) \<times> 's" where
  \<comment> \<open>the body of the \<^verbatim>\<open>try\<close> block of lines 64 to 137\<close>
  "update_config_try pm req s =
     (if receiver_emails req = []
      then (Inr (error_response 400 ''At least one receiver email is required''), s)
      else
        case process_emails pm req (receiver_emails req) [] s of
          (Inl e, s') \<Rightarrow> (Inl e, s')
        | (Inr updated_profiles, s') \<Rightarrow>
            (Inr \<lparr>status = 200,
                  body = UpdateResult ''Configuration updated successfully''
                           updated_profiles (length updated_profiles)\<rparr>, s'))"

definition update_config ::
  "'s profile_manager \<Rightarrow> config_request \<Rightarrow> 's app_state \<Rightarrow> response \<times> 's app_state" where
  "update_config pm req st =
     (case update_config_try pm req (store st) of
        (Inl e, s') \<Rightarrow> (error_response 500 (str_exn e), st\<lparr>store := s'\<rparr>)
      | (Inr resp, s') \<Rightarrow> (resp, st\<lparr>store := s'\<rparr>))"

definition get_profiles :: "'s profile_manager \<Rightarrow> 's app_state \<Rightarrow> response \<times> 's app_state" where
  "get_profiles pm st =
     (case get_all_active_profiles pm (store st) of
        (Inl e, s') \<Rightarrow> (error_response 500 (str_exn e), st\<lparr>store := s'\<rparr>)
      | (Inr profiles, s') \<Rightarrow>
          (\<lparr>status = 200, body = ProfileList (map to_dict profiles)\<rparr>, st\<lparr>store := s'\<rparr>))"

definition get_profile ::
  "'s profile_manager \<Rightarrow> string \<Rightarrow> 's app_state \<Rightarrow> response \<times> 's app_state" where
  "get_profile pm em st =
     (case get_user_profile pm em (store st) of
        (Inl e, s') \<Rightarrow> (error_response 500 (str_exn e), st\<lparr>store := s'\<rparr>)
      | (Inr (Some p), s') \<Rightarrow> (\<lparr>status = 200, body = ProfileObj (to_dict p)\<rparr>, st\<lparr>store := s'\<rparr>)
      | (Inr None, s') \<Rightarrow> (error_response 404 ''Profile not found'', st\<lparr>store := s'\<rparr>))"

subsection \<open>The profile store\<close>

text \<open>
  Modelled from the spec: \<^verbatim>\<open>src/database/profile_manager\<close> is not part of the given
  source. The store is a table of profiles keyed by their email. A lookup returns the
  row of that email, a default profile is a new row that carries the email and the
  name, an update sets the attributes it is given and leaves the others (a partial
  field update), and all rows are active, since nothing here deletes one. The values
  of a default profile are a parameter.
\<close>

type_synonym profile_store = "profile list"

definition find_profile :: "string \<Rightarrow> profile_store \<Rightarrow> profile option" where
  "find_profile em s = find (\<lambda>p. email p = em) s"

definition apply_update :: "update_data \<Rightarrow> profile \<Rightarrow> profile" where
  "apply_update ud p =
     p\<lparr>preferred_locations :=
         (case set_preferred_locations ud of None \<Rightarrow> preferred_locations p | Some v \<Rightarrow> v),
       expected_salary_min :=
         (case set_expected_salary_min ud of None \<Rightarrow> expected_salary_min p | Some v \<Rightarrow> v),
       expected_salary_max :=
         (case set_expected_salary_max ud of None \<Rightarrow> expected_salary_max p | Some v \<Rightarrow> v),
       experience_years :=
         (case set_experience_years ud of None \<Rightarrow> experience_years p | Some v \<Rightarrow> v),
       current_role := (case set_current_role ud of None \<Rightarrow> current_role p | Some v \<Rightarrow> v),
       primary_skills :=
         (case set_primary_skills ud of None \<Rightarrow> primary_skills p | Some v \<Rightarrow> v)\<rparr>"

fun update_row :: "string \<Rightarrow> update_data \<Rightarrow> profile_store \<Rightarrow> profile_store" where
  "update_row em ud [] = []"
| "update_row em ud (p # s) =
     (if email p = em then apply_update ud p # s else p # update_row em ud s)"

definition default_profile :: "profile \<Rightarrow> string \<Rightarrow> string \<Rightarrow> profile" where
  "default_profile defaults em nm = defaults\<lparr>email := em, name := nm\<rparr>"

definition stored_profiles :: "profile \<Rightarrow> profile_store profile_manager" where
  "stored_profiles defaults =
     \<lparr>get_user_profile = (\<lambda>em s. (Inr (find_profile em s), s)),
      create_default_profile =
        (\<lambda>em nm s. (Inr (Some (default_profile defaults em nm)),
                     s @ [default_profile defaults em nm])),
      update_user_profile =
        (\<lambda>em ud s. (Inr (find_profile em (update_row em ud s)), update_row em ud s)),
      get_all_active_profiles = (\<lambda>s. (Inr s, s))\<rparr>"

text \<open>
  What one round of the loop does to this store, written without the exceptions:
  the profile the round starts from, and the table after the round.
\<close>

definition profile_before :: "profile \<Rightarrow> string \<Rightarrow> profile_store \<Rightarrow> profile" where
  "profile_before defaults em s =
     (case find_profile em s of
        Some p \<Rightarrow> p
      | None \<Rightarrow> default_profile defaults em (split_first CHR ''@'' em))"

definition upsert :: "profile \<Rightarrow> update_data \<Rightarrow> profile_store \<Rightarrow> string \<Rightarrow> profile_store" where
  "upsert defaults ud s em =
     update_row em ud
       (case find_profile em s of
          None \<Rightarrow> s @ [default_profile defaults em (split_first CHR ''@'' em)]
        | Some p \<Rightarrow> s)"

definition addressed :: "string list \<Rightarrow> string list" where
  \<comment> \<open>the addresses the loop does not skip, stripped\<close>
  "addressed ems = filter (\<lambda>em. em \<noteq> []) (map strip ems)"

text \<open>A store that cannot be reached: every call raises.\<close>

definition unreachable :: "py_exception \<Rightarrow> 's profile_manager" where
  "unreachable e =
     \<lparr>get_user_profile = (\<lambda>em s. (Inl e, s)),
      create_default_profile = (\<lambda>em nm s. (Inl e, s)),
      update_user_profile = (\<lambda>em ud s. (Inl e, s)),
      get_all_active_profiles = (\<lambda>s. (Inl e, s))\<rparr>"

subsection \<open>Example data\<close>

definition example_defaults :: profile where
  "example_defaults =
     \<lparr>email = [], name = [], preferred_locations = [], expected_salary_min = 0,
      expected_salary_max = 0, experience_years = 0, current_role = [], primary_skills = []\<rparr>"

definition example_config :: config where
  "example_config =
     \<lparr>PREFERRED_LOCATIONS = [''Remote''], MIN_SALARY = 5, MAX_SALARY = 50,
      EMAIL_RECIPIENT = Some ''owner@x.com'', ENABLE_USER_PROFILES = True\<rparr>"

definition example_request :: config_request where
  "example_request =
     \<lparr>receiver_emails = [''a@x.com''], locations = [''NYC''],
      salary_ranges = [\<lparr>range_min = Some 5, range_max = Some 10\<rparr>,
                       \<lparr>range_min = Some 8, range_max = Some 20\<rparr>],
      experience_min = Some 2, experience_max = Some 6,
      job_title = ''Backend Engineer''\<rparr>"

definition example_state :: "profile_store app_state" where
  "example_state = \<lparr>global_config = example_config, store = []\<rparr>"

definition analyst :: profile where
  "analyst =
     \<lparr>email = ''a@x.com'', name = ''a'', preferred_locations = [''Pune''],
      expected_salary_min = 7, expected_salary_max = 9, experience_years = 3,
      current_role = ''Analyst'', primary_skills = [''SQL'']\<rparr>"

definition analyst_state :: "profile_store app_state" where
  "analyst_state = \<lparr>global_config = example_config, store = [analyst]\<rparr>"

definition zero_min_request :: config_request where
  "zero_min_request =
     example_request\<lparr>salary_ranges := [\<lparr>range_min = Some 0, range_max = Some 10\<rparr>,
                                        \<lparr>range_min = Some 8, range_max = Some 20\<rparr>]\<rparr>"

definition no_min_request :: config_request where
  "no_min_request =
     example_request\<lparr>salary_ranges := [\<lparr>range_min = None, range_max = Some 10\<rparr>]\<rparr>"

definition padded_request :: config_request where
  "padded_request = example_request\<lparr>locations := ['' NYC '', '' '']\<rparr>"

definition unset_request :: config_request where
  "unset_request =
     example_request\<lparr>experience_min := None, experience_max := Some 10, job_title := []\<rparr>"

subsection \<open>The aggregation in the words of the specification\<close>

definition min_of_mins :: "salary_range list \<Rightarrow> int" where
  \<comment> \<open>the minimum of the min fields of all the ranges\<close>
  "min_of_mins rs = Min (set (List.map_filter range_min rs))"

definition max_of_maxs :: "salary_range list \<Rightarrow> int" where
  \<comment> \<open>the maximum of the max fields of all the ranges\<close>
  "max_of_maxs rs = Max (set (List.map_filter range_max rs))"

section \<open>Properties\<close>

subsection \<open>Strings\<close>

lemma strip_Nil [simp]: "strip [] = []"
  by (simp add: strip_def)

lemma all_dropWhile: "(\<forall>x\<in>set (dropWhile P s). P x) \<longleftrightarrow> (\<forall>x\<in>set s. P x)"
  by (induction s) auto

lemma strip_Nil_iff: "strip s = [] \<longleftrightarrow> (\<forall>c\<in>set s. isspace c)"
  by (simp add: strip_def all_dropWhile)

lemma py_in_iff_sublist: "py_in sub s \<longleftrightarrow> sublist sub s"
  by (induction s) (auto simp: sublist_Cons_right)

lemma strip_example [simp]: "strip ''a@x.com'' = ''a@x.com''"
  by (simp add: strip_def isspace_def)

subsection \<open>The loop, for any store\<close>

lemma blank_round: "strip em = [] \<Longrightarrow> process_email pm req em ups s = (Inr ups, s)"
  by (simp add: process_email_def)

lemma blank_rounds:
  "\<forall>em\<in>set ems. strip em = [] \<Longrightarrow> process_emails pm req ems ups s = (Inr ups, s)"
  by (induction ems) (simp_all add: blank_round)

lemma process_emails_append:
  "process_emails pm req (xs @ ys) ups s =
     (case process_emails pm req xs ups s of
        (Inl e, s') \<Rightarrow> (Inl e, s')
      | (Inr ups', s') \<Rightarrow> process_emails pm req ys ups' s')"
  by (induction xs arbitrary: ups s) (auto split: prod.splits sum.splits)

subsection \<open>The loop on the table of profiles\<close>

lemma email_apply_update [simp]: "email (apply_update ud p) = email p"
  by (simp add: apply_update_def)

lemma apply_update_idem [simp]: "apply_update ud (apply_update ud p) = apply_update ud p"
  by (simp add: apply_update_def split: option.splits)

lemma email_default [simp]: "email (default_profile d em nm) = em"
  by (simp add: default_profile_def)

lemma find_update_row:
  "find_profile em' (update_row em ud s) =
     (if em' = em then map_option (apply_update ud) (find_profile em s) else find_profile em' s)"
  by (induction s) (auto simp: find_profile_def)

lemma find_append_row:
  "find_profile em (s @ [p]) =
     (case find_profile em s of
        Some q \<Rightarrow> Some q
      | None \<Rightarrow> if email p = em then Some p else None)"
  by (induction s) (auto simp: find_profile_def)

lemma find_upsert:
  "find_profile em' (upsert d ud s em) =
     (if em' = em then Some (apply_update ud (profile_before d em s)) else find_profile em' s)"
  by (auto simp: upsert_def profile_before_def find_update_row find_append_row
      split: option.splits)

lemma profile_before_upsert:
  "profile_before d em' (upsert d ud s em) =
     (if em' = em then apply_update ud (profile_before d em s) else profile_before d em' s)"
  by (simp add: profile_before_def find_upsert)

lemma process_email_stored:
  "strip em \<noteq> [] \<Longrightarrow>
   process_email (stored_profiles d) req em ups s =
     (Inr (ups @ [apply_update (build_update_data req) (profile_before d (strip em) s)]),
      upsert d (build_update_data req) s (strip em))"
  by (auto simp: process_email_def stored_profiles_def Let_def to_dict_def upsert_def
      profile_before_def find_update_row find_append_row split: option.splits)

lemma process_emails_stored:
  "process_emails (stored_profiles d) req ems ups s =
     (Inr (ups @ map (\<lambda>em. apply_update (build_update_data req) (profile_before d em s))
                   (addressed ems)),
      foldl (upsert d (build_update_data req)) s (addressed ems))"
proof (induction ems arbitrary: ups s)
  case Nil
  then show ?case by (simp add: addressed_def)
next
  case (Cons em ems)
  show ?case
  proof (cases "strip em = []")
    case True
    then have "process_email (stored_profiles d) req em ups s = (Inr ups, s)"
      by (simp add: process_email_def)
    with True Cons.IH show ?thesis by (simp add: addressed_def)
  next
    case False
    with Cons.IH show ?thesis
      by (simp add: process_email_stored addressed_def profile_before_upsert)
  qed
qed

lemma find_foldl_upsert:
  "find_profile em (foldl (upsert d ud) s ems) =
     (if em \<in> set ems then Some (apply_update ud (profile_before d em s))
      else find_profile em s)"
proof (induction ems arbitrary: s)
  case Nil
  then show ?case by simp
next
  case (Cons a ems)
  then show ?case
    by (auto simp: find_upsert profile_before_upsert profile_before_def)
qed

lemma update_row_fixed:
  "find_profile em s = Some p \<Longrightarrow> apply_update ud p = p \<Longrightarrow> update_row em ud s = s"
  by (induction s) (auto simp: find_profile_def split: if_splits)

lemma upsert_fixed:
  "find_profile em s = Some p \<Longrightarrow> apply_update ud p = p \<Longrightarrow> upsert d ud s em = s"
  by (simp add: upsert_def update_row_fixed)

lemma foldl_upsert_fixed:
  "\<forall>em\<in>set ems. \<exists>p. find_profile em s = Some p \<and> apply_update ud p = p \<Longrightarrow>
   foldl (upsert d ud) s ems = s"
  by (induction ems) (auto simp: upsert_fixed)

lemma run_twice:
  "foldl (upsert d ud) (foldl (upsert d ud) s ems) ems = foldl (upsert d ud) s ems"
  by (rule foldl_upsert_fixed) (simp add: find_foldl_upsert)

lemma update_config_stored:
  assumes "receiver_emails req \<noteq> []"
  shows "update_config (stored_profiles d) req st =
     (\<lparr>status = 200,
       body = UpdateResult ''Configuration updated successfully''
                (map (\<lambda>em. apply_update (build_update_data req) (profile_before d em (store st)))
                   (addressed (receiver_emails req)))
                (length (addressed (receiver_emails req)))\<rparr>,
      st\<lparr>store := foldl (upsert d (build_update_data req)) (store st)
                     (addressed (receiver_emails req))\<rparr>)"
  using assms by (simp add: update_config_def update_config_try_def process_emails_stored)

lemma profile_after:
  assumes "em \<in> set (receiver_emails req)" and "strip em \<noteq> []"
  shows "find_profile (strip em) (store (snd (update_config (stored_profiles d) req st))) =
     Some (apply_update (build_update_data req) (profile_before d (strip em) (store st)))"
proof -
  from assms have "receiver_emails req \<noteq> []" by auto
  moreover from assms have "strip em \<in> set (addressed (receiver_emails req))"
    by (auto simp: addressed_def)
  ultimately show ?thesis
    by (simp add: update_config_stored find_foldl_upsert)
qed

lemma example_run:
  "receiver_emails req = [''a@x.com''] \<Longrightarrow>
   store (snd (update_config (stored_profiles d) req st)) =
     upsert d (build_update_data req) (store st) ''a@x.com''"
  by (simp add: update_config_stored addressed_def)

lemma example_store:
  "store (snd (update_config (stored_profiles example_defaults) example_request example_state))
     = [apply_update (build_update_data example_request)
          (default_profile example_defaults ''a@x.com'' ''a'')]"
  by (simp add: example_run example_request_def example_state_def upsert_def find_profile_def
      split_first_def)

lemma find_single: "find_profile em [q] = Some p \<Longrightarrow> q = p"
  by (simp add: find_profile_def split: if_splits)

subsection \<open>What the dictionary of updates holds\<close>

lemma foldl_min: "foldl min (x::int) ys = Min (insert x (set ys))"
proof (induction ys arbitrary: x)
  case Nil
  then show ?case by simp
next
  case (Cons y ys)
  have "Min (insert (min x y) (set ys)) = Min (insert x (insert y (set ys)))"
    by (cases "set ys = {}") (simp_all add: min.assoc)
  with Cons show ?case by simp
qed

lemma foldl_max: "foldl max (x::int) ys = Max (insert x (set ys))"
proof (induction ys arbitrary: x)
  case Nil
  then show ?case by simp
next
  case (Cons y ys)
  have "Max (insert (max x y) (set ys)) = Max (insert x (insert y (set ys)))"
    by (cases "set ys = {}") (simp_all add: max.assoc)
  with Cons show ?case by simp
qed

lemma py_min_eq: "py_min xs = (if xs = [] then None else Some (Min (set xs)))"
  by (simp add: py_min_def foldl_min split: list.splits)

lemma py_max_eq: "py_max xs = (if xs = [] then None else Some (Max (set xs)))"
  by (simp add: py_max_def foldl_max split: list.splits)

lemma all_mins_no_zero:
  "\<forall>r\<in>set rs. range_min r \<noteq> Some 0 \<Longrightarrow> all_mins rs = List.map_filter range_min rs"
  by (induction rs)
    (auto simp: all_mins_def map_filter_simps truthy_def get_default_def split: option.splits)

lemma all_maxs_no_zero:
  "\<forall>r\<in>set rs. range_max r \<noteq> Some 0 \<Longrightarrow> all_maxs rs = List.map_filter range_max rs"
  by (induction rs)
    (auto simp: all_maxs_def map_filter_simps truthy_def get_default_def split: option.splits)

lemma salary_keywords:
  assumes "salary_ranges req \<noteq> []"
    and "\<forall>r\<in>set (salary_ranges req). range_min r \<noteq> Some 0 \<and> range_max r \<noteq> Some 0"
  shows "set_expected_salary_min (build_update_data req) =
           (if List.map_filter range_min (salary_ranges req) = [] then None
            else Some (min_of_mins (salary_ranges req)))"
    and "set_expected_salary_max (build_update_data req) =
           (if List.map_filter range_max (salary_ranges req) = [] then None
            else Some (max_of_maxs (salary_ranges req)))"
  using assms
  by (simp_all add: build_update_data_def py_min_eq py_max_eq all_mins_no_zero all_maxs_no_zero
      min_of_mins_def max_of_maxs_def)

lemma salary_update:
  assumes "salary_ranges req \<noteq> []"
    and "\<forall>r\<in>set (salary_ranges req). range_min r \<noteq> Some 0 \<and> range_max r \<noteq> Some 0"
  shows "expected_salary_min (apply_update (build_update_data req) q) =
           (if List.map_filter range_min (salary_ranges req) = [] then expected_salary_min q
            else min_of_mins (salary_ranges req))"
    and "expected_salary_max (apply_update (build_update_data req) q) =
           (if List.map_filter range_max (salary_ranges req) = [] then expected_salary_max q
            else max_of_maxs (salary_ranges req))"
  using salary_keywords [OF assms] by (simp_all add: apply_update_def)

lemma skills_keywords:
  assumes "job_title req \<noteq> []"
  shows "set_primary_skills (build_update_data req) =
     (if sublist ''python'' (lower (job_title req))
        then Some [''Python'', ''JavaScript'', ''React'']
      else if sublist ''react'' (lower (job_title req)) \<or>
              sublist ''frontend'' (lower (job_title req))
        then Some [''React'', ''JavaScript'', ''TypeScript'']
      else if sublist ''backend'' (lower (job_title req))
        then Some [''Python'', ''Java'', ''Node.js'']
      else None)"
  using assms by (simp add: build_update_data_def skills_for_title_def py_in_iff_sublist)

lemma skills_update:
  assumes "job_title req \<noteq> []"
  shows "primary_skills (apply_update (build_update_data req) q) =
     (if sublist ''python'' (lower (job_title req)) then [''Python'', ''JavaScript'', ''React'']
      else if sublist ''react'' (lower (job_title req)) \<or>
              sublist ''frontend'' (lower (job_title req))
        then [''React'', ''JavaScript'', ''TypeScript'']
      else if sublist ''backend'' (lower (job_title req)) then [''Python'', ''Java'', ''Node.js'']
      else primary_skills q)"
  using assms
  by (simp add: apply_update_def build_update_data_def skills_for_title_def py_in_iff_sublist)

lemma backend_title:
  "\<not> sublist ''python'' (lower ''Backend Engineer'')"
  "\<not> sublist ''react'' (lower ''Backend Engineer'')"
  "\<not> sublist ''frontend'' (lower ''Backend Engineer'')"
  "sublist ''backend'' (lower ''Backend Engineer'')"
  unfolding py_in_iff_sublist [symmetric] by code_simp+

lemma locations_keywords:
  assumes "locations req \<noteq> []"
  shows "set_preferred_locations (build_update_data req) =
     Some (filter (\<lambda>loc. loc \<noteq> []) (map strip (locations req)))"
  using assms by (simp add: build_update_data_def filter_map comp_def)

lemma locations_update:
  assumes "locations req \<noteq> []"
  shows "preferred_locations (apply_update (build_update_data req) q) =
     filter (\<lambda>loc. loc \<noteq> []) (map strip (locations req))"
  using assms by (simp add: apply_update_def build_update_data_def filter_map comp_def)

lemma clean_locations:
  "\<forall>loc\<in>set locs. loc \<noteq> [] \<and> strip loc = loc \<Longrightarrow>
   filter (\<lambda>loc. loc \<noteq> []) (map strip locs) = locs"
  by (induction locs) auto

lemma build_update_data_experience_max:
  "build_update_data (req\<lparr>experience_max := x\<rparr>) = build_update_data req"
  by (simp add: build_update_data_def)

lemma process_email_experience_max:
  "process_email pm (req\<lparr>experience_max := x\<rparr>) em ups s = process_email pm req em ups s"
  unfolding process_email_def build_update_data_experience_max ..

lemma process_emails_experience_max:
  "process_emails pm (req\<lparr>experience_max := x\<rparr>) ems ups s = process_emails pm req ems ups s"
  by (induction ems arbitrary: ups s)
    (auto simp: process_email_experience_max split: prod.splits sum.splits)

lemma experience_role_keywords:
  "set_experience_years (build_update_data req) = experience_min req"
  "set_current_role (build_update_data req) =
     (if job_title req = [] then None else Some (job_title req))"
  by (simp_all add: build_update_data_def)

lemma experience_role_update:
  "experience_years (apply_update (build_update_data req) q) =
     (case experience_min req of None \<Rightarrow> experience_years q | Some n \<Rightarrow> n)"
  "current_role (apply_update (build_update_data req) q) =
     (if job_title req = [] then current_role q else job_title req)"
  by (simp_all add: apply_update_def build_update_data_def)

section \<open>The claims\<close>

text \<open>
  In the claims on the resulting profiles, \<open>em\<close> is an entry of the list of receiver
  emails that the loop does not skip, and the profile is the row of \<open>strip em\<close> in the
  store after the request. Each of these theorems first gives the keyword argument that
  \<^verbatim>\<open>update_config\<close> passes to \<^verbatim>\<open>update_user_profile\<close>, which holds for every store.
\<close>

text \<open>
  C1 (as amended): when the list of salary ranges is not empty and no min or max
  field in it is 0, the expected minimum salary of the resulting profile is the least
  of the min fields the ranges carry, and the expected maximum the greatest of the max
  fields; a missing or \<^verbatim>\<open>null\<close> field does not count, and where no range carries
  the field the attribute keeps its value. The ranges 5 to 10 and 8 to 20 give 5 and 20.
\<close>

theorem salary_aggregation:
  assumes "em \<in> set (receiver_emails req)" and "strip em \<noteq> []" and "salary_ranges req \<noteq> []"
    and "\<forall>r\<in>set (salary_ranges req). range_min r \<noteq> Some 0 \<and> range_max r \<noteq> Some 0"
  shows "set_expected_salary_min (build_update_data req) =
       (if List.map_filter range_min (salary_ranges req) = [] then None
        else Some (min_of_mins (salary_ranges req)))
     \<and> set_expected_salary_max (build_update_data req) =
       (if List.map_filter range_max (salary_ranges req) = [] then None
        else Some (max_of_maxs (salary_ranges req)))
     \<and> (\<exists>p. find_profile (strip em) (store (snd (update_config (stored_profiles d) req st)))
            = Some p
       \<and> expected_salary_min p =
           (if List.map_filter range_min (salary_ranges req) = []
            then expected_salary_min (profile_before d (strip em) (store st))
            else min_of_mins (salary_ranges req))
       \<and> expected_salary_max p =
           (if List.map_filter range_max (salary_ranges req) = []
            then expected_salary_max (profile_before d (strip em) (store st))
            else max_of_maxs (salary_ranges req)))"
  unfolding profile_after [OF assms(1,2)]
  using salary_update [OF assms(3,4)] salary_keywords [OF assms(3,4)] by blast

theorem salary_aggregation_witness:
  "''a@x.com'' \<in> set (receiver_emails example_request) \<and> strip ''a@x.com'' \<noteq> [] \<and>
   salary_ranges example_request \<noteq> [] \<and>
   list_all (\<lambda>r. range_min r \<noteq> Some 0 \<and> range_max r \<noteq> Some 0)
     (salary_ranges example_request) \<and>
   map (\<lambda>p. (expected_salary_min p, expected_salary_max p))
     (store (snd (update_config (stored_profiles example_defaults) example_request example_state)))
     = [(5, 20)]"
proof -
  have h: "''a@x.com'' \<in> set (receiver_emails example_request)" "strip ''a@x.com'' \<noteq> []"
    "salary_ranges example_request \<noteq> []"
    "\<forall>r\<in>set (salary_ranges example_request). range_min r \<noteq> Some 0 \<and> range_max r \<noteq> Some 0"
    by (simp_all add: example_request_def)
  have v: "List.map_filter range_min (salary_ranges example_request) = [5, 8]"
    "List.map_filter range_max (salary_ranges example_request) = [10, 20]"
    "min_of_mins (salary_ranges example_request) = 5"
    "max_of_maxs (salary_ranges example_request) = 20"
    by (simp_all add: example_request_def map_filter_simps min_of_mins_def max_of_maxs_def)
  from salary_aggregation [OF h, of example_defaults example_state]
  obtain p where p: "find_profile ''a@x.com'' [apply_update (build_update_data example_request)
          (default_profile example_defaults ''a@x.com'' ''a'')] = Some p"
    and "expected_salary_min p = 5" and "expected_salary_max p = 20"
    unfolding v example_store by auto
  moreover from find_single [OF p] have "apply_update (build_update_data example_request)
          (default_profile example_defaults ''a@x.com'' ''a'') = p" .
  ultimately show ?thesis
    using h unfolding example_store by (simp add: list_all_iff)
qed

text \<open>
  The claim as the specification words it fails in two ways. Where no range carries a
  min field the expected minimum is not set at all: the same request leaves 7 in a
  profile that had 7 and 0 in a new one. Where a range has the min field 0 that range is
  passed over: the ranges 0 to 10 and 8 to 20 give the minimum 8, and the least of the
  min fields is 0.
\<close>

theorem salary_min_counterexample:
  "map expected_salary_min
     (store (snd (update_config (stored_profiles example_defaults) no_min_request
        analyst_state))) = [7] \<and>
   map expected_salary_min
     (store (snd (update_config (stored_profiles example_defaults) no_min_request
        example_state))) = [0] \<and>
   map expected_salary_min
     (store (snd (update_config (stored_profiles example_defaults) zero_min_request
        example_state))) = [8] \<and>
   set_expected_salary_min (build_update_data zero_min_request) = Some 8 \<and>
   min_of_mins (salary_ranges zero_min_request) = 0"
  by (simp add: example_run zero_min_request_def no_min_request_def example_request_def
      example_state_def analyst_state_def analyst_def example_defaults_def default_profile_def
      upsert_def find_profile_def apply_update_def build_update_data_def all_mins_def
      truthy_def get_default_def py_min_def min_of_mins_def map_filter_simps)

text \<open>
  C2: a \<^verbatim>\<open>POST /config\<close> request with an empty list of receiver emails is answered
  with status 400 and an error body, and the store is the one before the request: no
  profile is created or updated, whatever the store does.
\<close>

theorem update_config_requires_email:
  assumes "receiver_emails req = []"
  shows "update_config pm req st =
     (\<lparr>status = 400, body = ErrorBody ''At least one receiver email is required''\<rparr>, st)"
  using assms by (simp add: update_config_def update_config_try_def error_response_def)

theorem update_config_requires_email_witness:
  "receiver_emails (example_request\<lparr>receiver_emails := []\<rparr>) = [] \<and>
   update_config (stored_profiles example_defaults) (example_request\<lparr>receiver_emails := []\<rparr>)
       analyst_state =
     (\<lparr>status = 400, body = ErrorBody ''At least one receiver email is required''\<rparr>,
      analyst_state)"
  using update_config_requires_email
    [of "example_request\<lparr>receiver_emails := []\<rparr>" "stored_profiles example_defaults"
      analyst_state]
  by simp

text \<open>
  C3: with a job title that is not empty, the primary skills of the resulting profile
  follow the first keyword that occurs in the title, read in lower case: \<^verbatim>\<open>python\<close>,
  then \<^verbatim>\<open>react\<close> or \<^verbatim>\<open>frontend\<close>, then \<^verbatim>\<open>backend\<close>; with none of them the skills keep
  their value. The title \<^verbatim>\<open>Backend Engineer\<close> gives Python, Java, Node.js.
\<close>

theorem primary_skills_from_title:
  assumes "em \<in> set (receiver_emails req)" and "strip em \<noteq> []" and "job_title req \<noteq> []"
  shows "set_primary_skills (build_update_data req) =
       (if sublist ''python'' (lower (job_title req))
          then Some [''Python'', ''JavaScript'', ''React'']
        else if sublist ''react'' (lower (job_title req)) \<or>
                sublist ''frontend'' (lower (job_title req))
          then Some [''React'', ''JavaScript'', ''TypeScript'']
        else if sublist ''backend'' (lower (job_title req))
          then Some [''Python'', ''Java'', ''Node.js'']
        else None)
     \<and> (\<exists>p. find_profile (strip em) (store (snd (update_config (stored_profiles d) req st)))
            = Some p
       \<and> primary_skills p =
           (if sublist ''python'' (lower (job_title req))
              then [''Python'', ''JavaScript'', ''React'']
            else if sublist ''react'' (lower (job_title req)) \<or>
                    sublist ''frontend'' (lower (job_title req))
              then [''React'', ''JavaScript'', ''TypeScript'']
            else if sublist ''backend'' (lower (job_title req))
              then [''Python'', ''Java'', ''Node.js'']
            else primary_skills (profile_before d (strip em) (store st))))"
  unfolding profile_after [OF assms(1,2)]
  using skills_update [OF assms(3)] skills_keywords [OF assms(3)] by blast

theorem primary_skills_from_title_witness:
  "''a@x.com'' \<in> set (receiver_emails example_request) \<and> strip ''a@x.com'' \<noteq> [] \<and>
   job_title example_request \<noteq> [] \<and>
   map primary_skills
     (store (snd (update_config (stored_profiles example_defaults) example_request example_state)))
     = [[''Python'', ''Java'', ''Node.js'']]"
proof -
  have h: "''a@x.com'' \<in> set (receiver_emails example_request)" "strip ''a@x.com'' \<noteq> []"
    "job_title example_request \<noteq> []"
    by (simp_all add: example_request_def)
  have t: "job_title example_request = ''Backend Engineer''"
    by (simp add: example_request_def)
  from primary_skills_from_title [OF h, of example_defaults example_state]
  obtain p where p: "find_profile ''a@x.com'' [apply_update (build_update_data example_request)
          (default_profile example_defaults ''a@x.com'' ''a'')] = Some p"
    and "primary_skills p = [''Python'', ''Java'', ''Node.js'']"
    unfolding example_store t using backend_title by auto
  moreover from find_single [OF p] have "apply_update (build_update_data example_request)
          (default_profile example_defaults ''a@x.com'' ''a'') = p" .
  ultimately show ?thesis
    using h unfolding example_store by simp
qed

text \<open>
  C4 (as amended): when the list of locations is not empty, the preferred locations of
  the resulting profile are replaced by the supplied locations with the white space
  around each entry removed and the entries that are blank left out; they are the
  supplied list itself when no entry is blank or padded. The locations \<^verbatim>\<open>["NYC"]\<close> for
  \<^verbatim>\<open>a@x.com\<close> give the preferred locations \<^verbatim>\<open>["NYC"]\<close>.
\<close>

theorem locations_replaced:
  assumes "em \<in> set (receiver_emails req)" and "strip em \<noteq> []" and "locations req \<noteq> []"
  shows "set_preferred_locations (build_update_data req) =
       Some (filter (\<lambda>loc. loc \<noteq> []) (map strip (locations req)))
     \<and> (\<exists>p. find_profile (strip em) (store (snd (update_config (stored_profiles d) req st)))
            = Some p
       \<and> preferred_locations p = filter (\<lambda>loc. loc \<noteq> []) (map strip (locations req))
       \<and> ((\<forall>loc\<in>set (locations req). loc \<noteq> [] \<and> strip loc = loc) \<longrightarrow>
            preferred_locations p = locations req))"
  unfolding profile_after [OF assms(1,2)]
  using locations_update [OF assms(3)] locations_keywords [OF assms(3)]
    clean_locations [of "locations req"]
  by simp

theorem locations_replaced_witness:
  "''a@x.com'' \<in> set (receiver_emails example_request) \<and> strip ''a@x.com'' \<noteq> [] \<and>
   locations example_request \<noteq> [] \<and>
   list_all (\<lambda>loc. loc \<noteq> [] \<and> strip loc = loc) (locations example_request) \<and>
   map preferred_locations
     (store (snd (update_config (stored_profiles example_defaults) example_request example_state)))
     = [[''NYC'']]"
proof -
  have h: "''a@x.com'' \<in> set (receiver_emails example_request)" "strip ''a@x.com'' \<noteq> []"
    "locations example_request \<noteq> []"
    by (simp_all add: example_request_def)
  have c: "\<forall>loc\<in>set (locations example_request). loc \<noteq> [] \<and> strip loc = loc"
    and l: "locations example_request = [''NYC'']"
    by (simp_all add: example_request_def strip_def isspace_def)
  from locations_replaced [OF h, of example_defaults example_state] c
  obtain p where p: "find_profile ''a@x.com'' [apply_update (build_update_data example_request)
          (default_profile example_defaults ''a@x.com'' ''a'')] = Some p"
    and "preferred_locations p = [''NYC'']"
    unfolding example_store l by auto
  moreover from find_single [OF p] have "apply_update (build_update_data example_request)
          (default_profile example_defaults ''a@x.com'' ''a'') = p" .
  ultimately show ?thesis
    using h c unfolding example_store by (simp add: list_all_iff)
qed

text \<open>
  The claim as the specification words it fails on a padded or blank entry: the
  supplied locations \<^verbatim>\<open>[" NYC ", " "]\<close> leave the preferred locations \<^verbatim>\<open>["NYC"]\<close>.
\<close>

theorem locations_counterexample:
  "map preferred_locations
     (store (snd (update_config (stored_profiles example_defaults) padded_request
        example_state))) = [[''NYC'']] \<and>
   set_preferred_locations (build_update_data padded_request) = Some [''NYC''] \<and>
   locations padded_request = ['' NYC '', '' '']"
  by (simp add: example_run padded_request_def example_request_def example_state_def
      upsert_def find_profile_def apply_update_def build_update_data_def strip_def isspace_def)

text \<open>
  C5: on the store modelled from the spec, \<^verbatim>\<open>POST /config\<close> is idempotent: the same
  request run again on the state the first run left gives the same response and the
  same state, for every request and every starting state.
\<close>

theorem update_config_idempotent:
  "update_config (stored_profiles d) req (snd (update_config (stored_profiles d) req st)) =
     update_config (stored_profiles d) req st"
proof (cases "receiver_emails req = []")
  case True
  then show ?thesis by (simp add: update_config_def update_config_try_def)
next
  case False
  have "apply_update ud (profile_before d em (foldl (upsert d ud) s ems)) =
      apply_update ud (profile_before d em s)" if "em \<in> set ems" for em ud s ems
    using that by (simp add: profile_before_def find_foldl_upsert)
  with False show ?thesis
    by (simp add: update_config_stored run_twice cong: map_cong)
qed

theorem update_config_idempotent_witness:
  "update_config (stored_profiles example_defaults) example_request
     (snd (update_config (stored_profiles example_defaults) example_request analyst_state)) =
   update_config (stored_profiles example_defaults) example_request analyst_state"
  using update_config_idempotent [of example_defaults example_request analyst_state] by simp

text \<open>
  C6: \<^verbatim>\<open>GET /profiles/{email}\<close> answers 404 with an error body when the lookup finds no
  profile, and 200 with the profile when it finds one: for every store in terms of
  what \<^verbatim>\<open>get_user_profile\<close> returns, and for the table of profiles in terms of its rows.
\<close>

theorem get_profile_lookup:
  "(get_user_profile pm em (store st) = (Inr None, s') \<longrightarrow>
      get_profile pm em st =
        (\<lparr>status = 404, body = ErrorBody ''Profile not found''\<rparr>, st\<lparr>store := s'\<rparr>))
   \<and> (get_user_profile pm em (store st) = (Inr (Some p), s') \<longrightarrow>
      get_profile pm em st = (\<lparr>status = 200, body = ProfileObj (to_dict p)\<rparr>, st\<lparr>store := s'\<rparr>))
   \<and> (find_profile em (store t) = None \<longrightarrow>
      get_profile (stored_profiles d) em t =
        (\<lparr>status = 404, body = ErrorBody ''Profile not found''\<rparr>, t))
   \<and> (find_profile em (store t) = Some q \<longrightarrow>
      get_profile (stored_profiles d) em t = (\<lparr>status = 200, body = ProfileObj q\<rparr>, t))"
  by (simp add: get_profile_def error_response_def stored_profiles_def to_dict_def)

theorem get_profile_lookup_witness:
  "find_profile ''b@x.com'' (store analyst_state) = None \<and>
   get_profile (stored_profiles example_defaults) ''b@x.com'' analyst_state =
     (\<lparr>status = 404, body = ErrorBody ''Profile not found''\<rparr>, analyst_state) \<and>
   find_profile ''a@x.com'' (store analyst_state) = Some analyst \<and>
   get_profile (stored_profiles example_defaults) ''a@x.com'' analyst_state =
     (\<lparr>status = 200, body = ProfileObj analyst\<rparr>, analyst_state)"
  using get_profile_lookup
      [where t = analyst_state and em = "''b@x.com''" and d = example_defaults
         and pm = "stored_profiles example_defaults" and st = analyst_state
         and s' = "store analyst_state" and p = analyst and q = analyst]
    get_profile_lookup
      [where t = analyst_state and em = "''a@x.com''" and d = example_defaults
         and pm = "stored_profiles example_defaults" and st = analyst_state
         and s' = "store analyst_state" and p = analyst and q = analyst]
  by (simp add: analyst_state_def analyst_def find_profile_def stored_profiles_def to_dict_def)

text \<open>
  C7 (as amended): the years of experience of the resulting profile are the supplied
  \<^verbatim>\<open>experience_min\<close> when it is given, and keep their value when it is not; the current
  role is the job title when the title is not empty, and keeps its value when it is;
  \<^verbatim>\<open>experience_max\<close> is read and has no effect on the answer or on any store.
\<close>

theorem experience_and_role_set:
  assumes "em \<in> set (receiver_emails req)" and "strip em \<noteq> []"
  shows "set_experience_years (build_update_data req) = experience_min req
     \<and> set_current_role (build_update_data req) =
         (if job_title req = [] then None else Some (job_title req))
     \<and> (\<exists>p. find_profile (strip em) (store (snd (update_config (stored_profiles d) req st)))
            = Some p
       \<and> experience_years p =
           (case experience_min req of
              None \<Rightarrow> experience_years (profile_before d (strip em) (store st))
            | Some n \<Rightarrow> n)
       \<and> current_role p =
           (if job_title req = [] then current_role (profile_before d (strip em) (store st))
            else job_title req))
     \<and> update_config pm (req\<lparr>experience_max := x\<rparr>) t = update_config pm req t"
proof -
  have "update_config pm (req\<lparr>experience_max := x\<rparr>) t = update_config pm req t"
    by (simp add: update_config_def update_config_try_def process_emails_experience_max)
  then show ?thesis
    unfolding profile_after [OF assms]
    by (simp add: experience_role_update experience_role_keywords)
qed

theorem experience_and_role_set_witness:
  "''a@x.com'' \<in> set (receiver_emails example_request) \<and> strip ''a@x.com'' \<noteq> [] \<and>
   map (\<lambda>p. (current_role p, experience_years p))
     (store (snd (update_config (stored_profiles example_defaults) example_request example_state)))
     = [(''Backend Engineer'', 2)]"
proof -
  have h: "''a@x.com'' \<in> set (receiver_emails example_request)" "strip ''a@x.com'' \<noteq> []"
    by (simp_all add: example_request_def)
  have v: "experience_min example_request = Some 2"
    "job_title example_request = ''Backend Engineer''"
    by (simp_all add: example_request_def)
  from experience_and_role_set
    [OF h, where d = example_defaults and st = example_state
       and pm = "stored_profiles example_defaults" and x = None and t = example_state]
  obtain p where p: "find_profile ''a@x.com'' [apply_update (build_update_data example_request)
          (default_profile example_defaults ''a@x.com'' ''a'')] = Some p"
    and "experience_years p = 2" and "current_role p = ''Backend Engineer''"
    unfolding example_store v by auto
  moreover from find_single [OF p] have "apply_update (build_update_data example_request)
          (default_profile example_defaults ''a@x.com'' ''a'') = p" .
  ultimately show ?thesis
    using h unfolding example_store by simp
qed

text \<open>
  The claim as the specification words it fails for an empty job title and for
  \<^verbatim>\<open>experience_max\<close>: a request with the title \<^verbatim>\<open>""\<close>, no \<^verbatim>\<open>experience_min\<close> and the
  \<^verbatim>\<open>experience_max\<close> 10 leaves a profile with the role Analyst and 3 years as it was.
\<close>

theorem experience_role_counterexample:
  "map (\<lambda>p. (current_role p, experience_years p))
     (store (snd (update_config (stored_profiles example_defaults) unset_request
        analyst_state))) = [(''Analyst'', 3)] \<and>
   job_title unset_request = [] \<and> experience_max unset_request = Some 10"
  by (simp add: example_run unset_request_def example_request_def analyst_state_def analyst_def
      upsert_def find_profile_def apply_update_def build_update_data_def)

text \<open>
  C8: an exception raised by the profile store is answered with status 500 and the
  text of the exception as the error, by each of the four handlers. For
  \<^verbatim>\<open>POST /config\<close> the exception may come from the lookup, the creation or the update of
  any round of the loop, after the rounds before it went through.
\<close>

theorem store_exception_gives_500:
  "(get_all_active_profiles pm (store st) = (Inl e, s') \<longrightarrow>
      get_config pm st = (\<lparr>status = 500, body = ErrorBody (str_exn e)\<rparr>, st\<lparr>store := s'\<rparr>) \<and>
      get_profiles pm st = (\<lparr>status = 500, body = ErrorBody (str_exn e)\<rparr>, st\<lparr>store := s'\<rparr>))
   \<and> (get_user_profile pm em (store st) = (Inl e, s') \<longrightarrow>
      get_profile pm em st = (\<lparr>status = 500, body = ErrorBody (str_exn e)\<rparr>, st\<lparr>store := s'\<rparr>))
   \<and> (receiver_emails req = pre @ em # post \<and>
       process_emails pm req pre [] (store st) = (Inr ups, s1) \<and> strip em \<noteq> [] \<and>
       (get_user_profile pm (strip em) s1 = (Inl e, s')
        \<or> (\<exists>s2. get_user_profile pm (strip em) s1 = (Inr None, s2) \<and>
                create_default_profile pm (strip em) (split_first CHR ''@'' (strip em)) s2
                  = (Inl e, s'))
        \<or> (\<exists>p s2 s3.
              (get_user_profile pm (strip em) s1 = (Inr (Some p), s3)
               \<or> get_user_profile pm (strip em) s1 = (Inr None, s2) \<and>
                  create_default_profile pm (strip em) (split_first CHR ''@'' (strip em)) s2
                    = (Inr (Some p), s3)) \<and>
              update_user_profile pm (strip em) (build_update_data req) s3 = (Inl e, s')))
      \<longrightarrow> update_config pm req st =
            (\<lparr>status = 500, body = ErrorBody (str_exn e)\<rparr>, st\<lparr>store := s'\<rparr>))"
proof (intro conjI impI)
  assume "get_all_active_profiles pm (store st) = (Inl e, s')"
  then show "get_config pm st = (\<lparr>status = 500, body = ErrorBody (str_exn e)\<rparr>, st\<lparr>store := s'\<rparr>)"
    and "get_profiles pm st = (\<lparr>status = 500, body = ErrorBody (str_exn e)\<rparr>, st\<lparr>store := s'\<rparr>)"
    by (simp_all add: get_config_def get_profiles_def error_response_def)
next
  assume "get_user_profile pm em (store st) = (Inl e, s')"
  then show "get_profile pm em st = (\<lparr>status = 500, body = ErrorBody (str_exn e)\<rparr>, st\<lparr>store := s'\<rparr>)"
    by (simp add: get_profile_def error_response_def)
next
  assume a: "receiver_emails req = pre @ em # post \<and>
       process_emails pm req pre [] (store st) = (Inr ups, s1) \<and> strip em \<noteq> [] \<and>
       (get_user_profile pm (strip em) s1 = (Inl e, s')
        \<or> (\<exists>s2. get_user_profile pm (strip em) s1 = (Inr None, s2) \<and>
                create_default_profile pm (strip em) (split_first CHR ''@'' (strip em)) s2
                  = (Inl e, s'))
        \<or> (\<exists>p s2 s3.
              (get_user_profile pm (strip em) s1 = (Inr (Some p), s3)
               \<or> get_user_profile pm (strip em) s1 = (Inr None, s2) \<and>
                  create_default_profile pm (strip em) (split_first CHR ''@'' (strip em)) s2
                    = (Inr (Some p), s3)) \<and>
              update_user_profile pm (strip em) (build_update_data req) s3 = (Inl e, s')))"
  then have ne: "strip em \<noteq> []" "em \<noteq> []" by auto
  from a have "process_email pm req em ups s1 = (Inl e, s')"
    unfolding process_email_def Let_def using ne by (elim conjE disjE exE) simp_all
  with a have "process_emails pm req (receiver_emails req) [] (store st) = (Inl e, s')"
    by (simp add: process_emails_append)
  moreover from a have "receiver_emails req \<noteq> []" by auto
  ultimately show "update_config pm req st =
      (\<lparr>status = 500, body = ErrorBody (str_exn e)\<rparr>, st\<lparr>store := s'\<rparr>)"
    by (simp add: update_config_def update_config_try_def error_response_def)
qed

theorem store_exception_gives_500_witness:
  "get_all_active_profiles (unreachable (PyException ''db down'')) (store analyst_state) =
     (Inl (PyException ''db down''), store analyst_state) \<and>
   get_user_profile (unreachable (PyException ''db down'')) ''a@x.com'' (store analyst_state) =
     (Inl (PyException ''db down''), store analyst_state) \<and>
   get_config (unreachable (PyException ''db down'')) analyst_state =
     (\<lparr>status = 500, body = ErrorBody ''db down''\<rparr>, analyst_state) \<and>
   get_profiles (unreachable (PyException ''db down'')) analyst_state =
     (\<lparr>status = 500, body = ErrorBody ''db down''\<rparr>, analyst_state) \<and>
   get_profile (unreachable (PyException ''db down'')) ''a@x.com'' analyst_state =
     (\<lparr>status = 500, body = ErrorBody ''db down''\<rparr>, analyst_state) \<and>
   update_config (unreachable (PyException ''db down'')) example_request analyst_state =
     (\<lparr>status = 500, body = ErrorBody ''db down''\<rparr>, analyst_state)"
  using store_exception_gives_500
    [where pm = "unreachable (PyException ''db down'')" and st = analyst_state
       and e = "PyException ''db down''" and s' = "store analyst_state" and em = "''a@x.com''"
       and req = example_request and pre = "[]" and post = "[]" and ups = "[]"
       and ?s1.0 = "store analyst_state"]
  by (simp add: unreachable_def example_request_def)

text \<open>
  C9: \<^verbatim>\<open>POST /config\<close> leaves the global configuration as it was, whatever the request,
  the store and the outcome: the handler writes to the store of profiles only.
\<close>

theorem update_config_keeps_global_config:
  "global_config (snd (update_config pm req st)) = global_config st"
  by (simp add: update_config_def split: prod.splits sum.splits)

theorem update_config_keeps_global_config_witness:
  "global_config (snd (update_config (stored_profiles example_defaults) example_request
     example_state)) = example_config"
  using update_config_keeps_global_config
    [of "stored_profiles example_defaults" example_request example_state]
  by (simp add: example_state_def)

text \<open>
  C10: when the list of receiver emails is not empty and each entry is empty or made
  of white space only, the answer is not 400: it is 200 with no profile and a count of
  0, and the store is untouched. In every answer of this shape the count is the length
  of the list of profiles.
\<close>

theorem blank_emails_update_nothing:
  "(receiver_emails req \<noteq> [] \<and> (\<forall>em\<in>set (receiver_emails req). \<forall>c\<in>set em. isspace c) \<longrightarrow>
      update_config pm req st =
        (\<lparr>status = 200, body = UpdateResult ''Configuration updated successfully'' [] 0\<rparr>, st))
   \<and> (\<forall>msg ps n. body (fst (update_config pm req st)) = UpdateResult msg ps n \<longrightarrow> n = length ps)"
proof (intro conjI impI allI)
  assume "receiver_emails req \<noteq> [] \<and> (\<forall>em\<in>set (receiver_emails req). \<forall>c\<in>set em. isspace c)"
  then have "receiver_emails req \<noteq> []" and "\<forall>em\<in>set (receiver_emails req). strip em = []"
    by (simp_all add: strip_Nil_iff)
  then show "update_config pm req st =
      (\<lparr>status = 200, body = UpdateResult ''Configuration updated successfully'' [] 0\<rparr>, st)"
    by (simp add: update_config_def update_config_try_def blank_rounds)
next
  fix msg ps n
  assume "body (fst (update_config pm req st)) = UpdateResult msg ps n"
  then show "n = length ps"
    by (auto simp: update_config_def update_config_try_def error_response_def
        split: if_splits prod.splits sum.splits)
qed

theorem blank_emails_update_nothing_witness:
  "receiver_emails (example_request\<lparr>receiver_emails := [[], ''  '']\<rparr>) \<noteq> [] \<and>
   list_all (list_all isspace)
     (receiver_emails (example_request\<lparr>receiver_emails := [[], ''  '']\<rparr>)) \<and>
   update_config (unreachable (PyException ''down''))
       (example_request\<lparr>receiver_emails := [[], ''  '']\<rparr>) analyst_state =
     (\<lparr>status = 200, body = UpdateResult ''Configuration updated successfully'' [] 0\<rparr>,
      analyst_state)"
  using blank_emails_update_nothing
    [of "example_request\<lparr>receiver_emails := [[], ''  '']\<rparr>"
      "unreachable (PyException ''down'')" analyst_state]
  by (simp add: isspace_def)

end
